theory Spec2Isabelle
  imports
    Complex_Main
    "HOL-Library.Word"
    "HOL-Library.List_Lexorder"
    "HOL-Library.Char_ord"
begin

section \<open>Data model\<close>

text \<open>
  The program \<^verbatim>\<open>main.py\<close> is a straight-line script over pandas data frames. Each
  statement is embedded as a function on tables; the library calls are modelled by what
  they compute (pandas \<^verbatim>\<open>concat\<close>, \<^verbatim>\<open>abs\<close>, \<^verbatim>\<open>groupby(...).mean()\<close>,
  \<^verbatim>\<open>dropna\<close>, \<^verbatim>\<open>transform\<close>, \<^verbatim>\<open>fillna\<close>, \<^verbatim>\<open>sort_values\<close>, \<^verbatim>\<open>head\<close>;
  scikit-learn \<^verbatim>\<open>StandardScaler\<close> and \<^verbatim>\<open>PCA\<close>).

  A table is a list of rows in index order. Every row carries the two key columns
  \<^verbatim>\<open>alumno\<close> and \<^verbatim>\<open>grupo\<close> and the cells of the columns selected by
  \<^verbatim>\<open>select_dtypes(include=[int, float])\<close> (line 27), in column order. Such a column is
  either \<^verbatim>\<open>int64\<close>, a 64-bit two's complement integer that cannot be missing, or
  \<^verbatim>\<open>float64\<close>. A \<^verbatim>\<open>float64\<close> value is modelled as a real number, \<open>None\<close> standing
  for NaN; rounding and infinities are not modelled. In a raw table a key read from an
  empty CSV field is missing (\<open>None\<close>).
\<close>

datatype cell = Int64 "64 word" | Float64 "real option"

record ('k, 'c) row =
  alumno :: 'k
  grupo :: 'k
  cells :: "'c list"

type_synonym raw_row = "(string option, cell) row"

type_synonym agg_row = "(string, real option) row"

datatype error = ValueError_concat | ValueError_scaler | ValueError_pca

section \<open>Loader\<close>

text \<open>
  Line 21, \<^verbatim>\<open>pd.concat(dataframes.values(), ignore_index=True)\<close>: the rows of the
  files in append order; \<^verbatim>\<open>concat\<close> raises \<^verbatim>\<open>ValueError\<close> ("No objects to
  concatenate") on an empty sequence.
\<close>

definition pd_concat :: "raw_row list list \<Rightarrow> error + raw_row list" where
  "pd_concat dataframes =
     (if dataframes = [] then Inl ValueError_concat else Inr (concat dataframes))"

section \<open>Cleaner\<close>

subsection \<open>Sign correction (lines 27-28)\<close>

text \<open>
  \<^verbatim>\<open>abs\<close> on an \<^verbatim>\<open>int64\<close> column negates in 64-bit arithmetic: the negation of
  \<open>- 2 ^ 63\<close> wraps to itself. On a \<^verbatim>\<open>float64\<close> column it is the absolute value, NaN
  staying NaN.
\<close>

definition abs_int64 :: "64 word \<Rightarrow> 64 word" where
  "abs_int64 w = (if sint w < 0 then - w else w)"

fun abs_cell :: "cell \<Rightarrow> cell" where
  "abs_cell (Int64 w) = Int64 (abs_int64 w)"
| "abs_cell (Float64 x) = Float64 (map_option abs x)"

definition sign_correct :: "raw_row list \<Rightarrow> raw_row list" where
  "sign_correct combined_df = map (\<lambda>r. r\<lparr>cells := map abs_cell (cells r)\<rparr>) combined_df"

subsection \<open>Aggregation per (alumno, grupo) (lines 33-37)\<close>

text \<open>
  \<^verbatim>\<open>astype('category')\<close> gives each key column its categories: the distinct non-missing
  values in sorted order. \<^verbatim>\<open>groupby(['alumno', 'grupo'])\<close> on two categorical keys
  yields one group for every combination of an \<^verbatim>\<open>alumno\<close> category with a
  \<^verbatim>\<open>grupo\<close> category, in sorted order, also for the combinations that no row has;
  rows with a missing key belong to no group. \<^verbatim>\<open>mean()\<close> is computed in
  \<^verbatim>\<open>float64\<close> over the values that are not NaN, and is NaN when there is none.
\<close>

fun defined :: "'a option list \<Rightarrow> 'a list" where
  "defined [] = []"
| "defined (None # xs) = defined xs"
| "defined (Some v # xs) = v # defined xs"

definition categories :: "string option list \<Rightarrow> string list" where
  "categories xs = sort (remdups (defined xs))"

fun to_float :: "cell \<Rightarrow> real option" where
  "to_float (Int64 w) = Some (real_of_int (sint w))"
| "to_float (Float64 x) = x"

definition mean :: "real option list \<Rightarrow> real option" where
  "mean xs =
     (let vs = defined xs
      in if vs = [] then None else Some (sum_list vs / real (length vs)))"

definition ncols :: "('k, 'c) row list \<Rightarrow> nat" where
  "ncols df = (case df of [] \<Rightarrow> 0 | r # _ \<Rightarrow> length (cells r))"

definition column_values :: "nat \<Rightarrow> raw_row list \<Rightarrow> real option list" where
  "column_values j rs =
     map (\<lambda>r. if j < length (cells r) then to_float (cells r ! j) else None) rs"

definition group_rows :: "string \<Rightarrow> string \<Rightarrow> raw_row list \<Rightarrow> raw_row list" where
  "group_rows a g df = filter (\<lambda>r. alumno r = Some a \<and> grupo r = Some g) df"

definition group_mean :: "raw_row list \<Rightarrow> string \<Rightarrow> string \<Rightarrow> agg_row" where
  "group_mean df a g =
     \<lparr>alumno = a, grupo = g,
      cells = map (\<lambda>j. mean (column_values j (group_rows a g df))) [0..<ncols df]\<rparr>"

definition groupby_mean :: "raw_row list \<Rightarrow> agg_row list" where
  "groupby_mean df =
     concat (map (\<lambda>a. map (\<lambda>g. group_mean df a g) (categories (map grupo df)))
                 (categories (map alumno df)))"

subsection \<open>Dropping incomplete rows (line 39)\<close>

definition complete :: "agg_row \<Rightarrow> bool" where
  "complete r = list_all (\<lambda>c. c \<noteq> None) (cells r)"

definition dropna :: "agg_row list \<Rightarrow> agg_row list" where
  "dropna df = filter complete df"

subsection \<open>Median imputation within each grupo (lines 46-49)\<close>

text \<open>
  \<^verbatim>\<open>median()\<close> skips NaN; it is the middle value of the sorted values, the mean of the
  two middle values when their number is even, and NaN when there is none.
  \<^verbatim>\<open>groupby('grupo')[numeric_columns].transform(lambda x: x.fillna(x.median()))\<close>
  applies the function to each column of each \<^verbatim>\<open>grupo\<close> partition; the result has the
  rows of the table in their order. \<^verbatim>\<open>fillna\<close> with a data frame takes, for each NaN
  cell, the cell of the same row and column of the other frame.
\<close>

definition median :: "real option list \<Rightarrow> real option" where
  "median xs =
     (let vs = sort (defined xs); n = length vs
      in if n = 0 then None
         else if odd n then Some (vs ! (n div 2))
         else Some ((vs ! (n div 2 - 1) + vs ! (n div 2)) / 2))"

fun fillna_cell :: "real option \<Rightarrow> real option \<Rightarrow> real option" where
  "fillna_cell None m = m"
| "fillna_cell (Some v) m = Some v"

definition group_column :: "string \<Rightarrow> nat \<Rightarrow> agg_row list \<Rightarrow> real option list" where
  "group_column g j df =
     map (\<lambda>r. if j < length (cells r) then cells r ! j else None)
         (filter (\<lambda>r. grupo r = g) df)"

definition medians :: "agg_row list \<Rightarrow> real option list list" where
  "medians df =
     map (\<lambda>r. map (\<lambda>(j, c). fillna_cell c (median (group_column (grupo r) j df)))
                   (enumerate 0 (cells r))) df"

definition fillna :: "agg_row list \<Rightarrow> real option list list \<Rightarrow> agg_row list" where
  "fillna df other =
     map (\<lambda>(r, ms). r\<lparr>cells := map (\<lambda>(c, m). fillna_cell c m) (zip (cells r) ms)\<rparr>)
         (zip df other)"

definition impute :: "agg_row list \<Rightarrow> agg_row list" where
  "impute df = fillna df (medians df)"

definition cleaner :: "raw_row list \<Rightarrow> agg_row list" where
  "cleaner combined_df = impute (dropna (groupby_mean (sign_correct combined_df)))"

section \<open>Normalizer (lines 53-57)\<close>

text \<open>
  \<^verbatim>\<open>StandardScaler().fit_transform\<close> refuses a matrix without rows or without columns
  (\<^verbatim>\<open>ValueError\<close>). NaN cells are allowed: they are left out of the column statistics and
  stay NaN. Each column is shifted by its mean and divided by \<^verbatim>\<open>scale_\<close>, the square
  root of the population variance; \<^verbatim>\<open>scale_\<close> is computed through
  \<^verbatim>\<open>_handle_zeros_in_scale\<close>, which replaces a zero by 1.
\<close>

definition matrix_column :: "nat \<Rightarrow> real option list list \<Rightarrow> real option list" where
  "matrix_column j X = map (\<lambda>row. if j < length row then row ! j else None) X"

definition nanvar :: "real option list \<Rightarrow> real option" where
  "nanvar xs =
     (case mean xs of
        None \<Rightarrow> None
      | Some m \<Rightarrow> mean (map (map_option (\<lambda>x. (x - m)\<^sup>2)) xs))"

definition handle_zeros_in_scale :: "real \<Rightarrow> real" where
  "handle_zeros_in_scale s = (if s = 0 then 1 else s)"

definition scale_of :: "real option list \<Rightarrow> real option" where
  "scale_of xs = map_option (\<lambda>v. handle_zeros_in_scale (sqrt v)) (nanvar xs)"

fun standardize_cell :: "real option \<Rightarrow> real option \<Rightarrow> real option \<Rightarrow> real option" where
  "standardize_cell (Some m) (Some s) (Some x) = Some ((x - m) / s)"
| "standardize_cell _ _ _ = None"

definition matrix_ncols :: "'a list list \<Rightarrow> nat" where
  "matrix_ncols X = (case X of [] \<Rightarrow> 0 | row # _ \<Rightarrow> length row)"

definition scaler_fit_transform :: "real option list list \<Rightarrow> error + real option list list" where
  "scaler_fit_transform X =
     (if X = [] \<or> matrix_ncols X = 0 then Inl ValueError_scaler
      else Inr (map (\<lambda>row.
                  map (\<lambda>(j, x). standardize_cell (mean (matrix_column j X))
                                    (scale_of (matrix_column j X)) x)
                      (enumerate 0 row)) X))"

section \<open>Reducer (lines 61-62, 97-98, 128-129)\<close>

text \<open>
  \<^verbatim>\<open>PCA(n_components).fit_transform\<close> refuses a matrix without rows or columns or
  with a NaN cell. \<^verbatim>\<open>n_components=None\<close> stands for the smaller of the number of rows
  and the number of columns; a number above that is refused (\<^verbatim>\<open>ValueError\<close>). The
  matrix is centred and decomposed by the singular value decomposition of LAPACK, which
  is a parameter \<open>svd\<close> here: it returns the left vectors \<open>U\<close> (one row per record), the
  singular values \<open>S\<close> and the right vectors \<open>Vt\<close> (one row per component). Then
  \<^verbatim>\<open>explained_variance_ = S ** 2 / (n_samples - 1)\<close>,
  \<^verbatim>\<open>explained_variance_ratio_ = explained_variance_ / explained_variance_.sum()\<close> over
  all components, and the first \<^verbatim>\<open>n_components\<close> entries are kept; the projection is
  \<^verbatim>\<open>U[:, :n_components] * S[:n_components]\<close>. A division by zero gives no finite
  number: \<open>None\<close>.
\<close>

type_synonym svd = "real list list \<Rightarrow> real list list \<times> real list \<times> real list list"

record pca_result =
  components :: "real list list"
  explained_variance :: "real option list"
  explained_variance_ratio :: "real option list"
  transformed :: "real list list"

definition column_mean :: "real list list \<Rightarrow> nat \<Rightarrow> real" where
  "column_mean X j =
     sum_list (map (\<lambda>row. if j < length row then row ! j else 0) X) / real (length X)"

definition center :: "real list list \<Rightarrow> real list list" where
  "center X = map (\<lambda>row. map (\<lambda>(j, x). x - column_mean X j) (enumerate 0 row)) X"

definition float_div :: "real option \<Rightarrow> real option \<Rightarrow> real option" where
  "float_div x y =
     (case (x, y) of
        (Some a, Some b) \<Rightarrow> if b = 0 then None else Some (a / b)
      | _ \<Rightarrow> None)"

fun float_sum :: "real option list \<Rightarrow> real option" where
  "float_sum [] = Some 0"
| "float_sum (None # xs) = None"
| "float_sum (Some v # xs) = map_option (\<lambda>s. v + s) (float_sum xs)"

definition resolve_n_components :: "nat option \<Rightarrow> nat \<Rightarrow> nat \<Rightarrow> nat option" where
  "resolve_n_components n_components n_samples n_features =
     (case n_components of
        None \<Rightarrow> Some (min n_samples n_features)
      | Some k \<Rightarrow> if k \<le> min n_samples n_features then Some k else None)"

definition pca_fit_transform :: "svd \<Rightarrow> nat option \<Rightarrow> real option list list \<Rightarrow> error + pca_result" where
  "pca_fit_transform svd n_components X =
     (if X = [] \<or> matrix_ncols X = 0 \<or> list_ex (\<lambda>row. list_ex (\<lambda>x. x = None) row) X
      then Inl ValueError_pca
      else
        case resolve_n_components n_components (length X) (matrix_ncols X) of
          None \<Rightarrow> Inl ValueError_pca
        | Some k \<Rightarrow>
            (case svd (center (map defined X)) of
               (U, S, Vt) \<Rightarrow>
                 let ev = map (\<lambda>s. float_div (Some (s\<^sup>2)) (Some (real (length X) - 1))) S;
                     total_var = float_sum ev;
                     ratio = map (\<lambda>e. float_div e total_var) ev
                 in Inr \<lparr>components = take k Vt,
                         explained_variance = take k ev,
                         explained_variance_ratio = take k ratio,
                         transformed =
                           map (\<lambda>u. map (\<lambda>(a, s). a * s) (zip (take k u) (take k S))) U\<rparr>))"

section \<open>Reporter\<close>

text \<open>
  \<^verbatim>\<open>cumsum()\<close> (lines 82, 109) is the running sum; once a NaN is met, every later
  entry is NaN.
\<close>

fun cumsum_from :: "real option \<Rightarrow> real option list \<Rightarrow> real option list" where
  "cumsum_from acc [] = []"
| "cumsum_from acc (x # xs) =
     (let acc' = (case (acc, x) of (Some a, Some v) \<Rightarrow> Some (a + v) | _ \<Rightarrow> None)
      in acc' # cumsum_from acc' xs)"

definition cumsum :: "real option list \<Rightarrow> real option list" where
  "cumsum xs = cumsum_from (Some 0) xs"

text \<open>
  Lines 133-141: the table of student and first-component score,
  \<^verbatim>\<open>sort_values(by=..., ascending=False)\<close> and \<^verbatim>\<open>head(3)\<close>. For a descending sort
  pandas reverses the rows, sorts them in ascending order and reverses the result, which
  leaves rows of equal score in table order when the sort is stable.
\<close>

definition sort_values_desc :: "(string \<times> real) list \<Rightarrow> (string \<times> real) list" where
  "sort_values_desc rows = rev (sort_key snd (rev rows))"

definition top_students :: "string list \<Rightarrow> real list \<Rightarrow> (string \<times> real) list" where
  "top_students names first_principal_component =
     take 3 (sort_values_desc (zip names first_principal_component))"

section \<open>The script\<close>

record report =
  eigenvectors :: "real list list"
  eigenvalues :: "real option list"
  variance_ratio :: "real option list"
  cumulative_ratio :: "real option list"
  main_components :: "real list list"
  variance_ratio_2 :: "real option list"
  cumulative_ratio_2 :: "real option list"
  scatter_labels :: "string list"
  top3 :: "(string \<times> real) list"

definition main :: "svd \<Rightarrow> raw_row list list \<Rightarrow> error + report" where
  "main svd dataframes =
     (case pd_concat dataframes of
        Inl e \<Rightarrow> Inl e
      | Inr combined_df \<Rightarrow>
          let df = cleaner combined_df;
              numerical_data = map cells df
          in case scaler_fit_transform numerical_data of
               Inl e \<Rightarrow> Inl e
             | Inr normalized_data \<Rightarrow>
                 (case pca_fit_transform svd None normalized_data of
                    Inl e \<Rightarrow> Inl e
                  | Inr pca_full \<Rightarrow>
                      (case pca_fit_transform svd (Some 2) normalized_data of
                         Inl e \<Rightarrow> Inl e
                       | Inr pca_2 \<Rightarrow>
                           (case pca_fit_transform svd (Some 1) normalized_data of
                              Inl e \<Rightarrow> Inl e
                            | Inr pca_1 \<Rightarrow>
                                Inr \<lparr>eigenvectors = components pca_full,
                                     eigenvalues = explained_variance pca_full,
                                     variance_ratio = explained_variance_ratio pca_full,
                                     cumulative_ratio = cumsum (explained_variance_ratio pca_full),
                                     main_components = transformed pca_2,
                                     variance_ratio_2 = explained_variance_ratio pca_2,
                                     cumulative_ratio_2 = cumsum (explained_variance_ratio pca_2),
                                     scatter_labels = map alumno df,
                                     top3 = top_students (map alumno df)
                                              (concat (transformed pca_1))\<rparr>))))"

subsection \<open>Decompositions of the example matrices\<close>

text \<open>
  The examples below run the Reducer on three matrices; these are the singular value
  decompositions of those matrices, which the examples pass for \<open>svd\<close>. The matrix with
  the rows \<open>(3, 1)\<close>, \<open>(3, -1)\<close>, \<open>(-3, 1)\<close>, \<open>(-3, -1)\<close> is \<open>U diag(6, 2) Vt\<close> with the
  orthonormal columns of \<open>U\<close> below and \<open>Vt\<close> the identity. A zero matrix has the singular
  values zero, with any orthonormal vectors.
\<close>

definition svd_4x2 :: svd where
  "svd_4x2 X =
     ([[1 / 2, 1 / 2], [1 / 2, - 1 / 2], [- 1 / 2, 1 / 2], [- 1 / 2, - 1 / 2]],
      [6, 2],
      [[1, 0], [0, 1]])"

definition svd_zero_2x3 :: svd where
  "svd_zero_2x3 X = ([[1, 0], [0, 1]], [0, 0], [[1, 0, 0], [0, 1, 0]])"

definition svd_zero_2x2 :: svd where
  "svd_zero_2x2 X = ([[1, 0], [0, 1]], [0, 0], [[1, 0], [0, 1]])"

section \<open>Properties of the Cleaner\<close>

subsection \<open>Sign correction\<close>

lemma neg_int64_fixed:
  assumes "sint (w::64 word) < 0" and "sint (- w) < 0"
  shows "- w = w"
proof (cases "sint w = - (2 ^ 63)")
  case True
  then have "sint w = sint (- 9223372036854775808 :: 64 word)" by simp
  then have "w = - 9223372036854775808" by (rule signed_word_eqI)
  then show ?thesis by simp
next
  case False
  have "- (2 ^ 63) \<le> sint w" using sint_ge [of w] by simp
  with False assms(1) have "0 < - sint w" and "- sint w < 2 ^ 63" by auto
  then have "sint (- w) = - sint w"
    by (simp add: sint_word_ariths signed_take_bit_int_eq_self)
  with assms show ?thesis by simp
qed

lemma abs_int64_idem: "abs_int64 (abs_int64 w) = abs_int64 w"
  unfolding abs_int64_def using neg_int64_fixed by auto

lemma abs_cell_idem: "abs_cell (abs_cell c) = abs_cell c"
  by (cases c) (simp_all add: abs_int64_idem option.map_comp comp_def)

text \<open>
  Claim C9. The sign-correction step is idempotent: applying the absolute value to the
  numeric columns of the combined table twice gives the same table as applying it once.
  This holds for \<^verbatim>\<open>float64\<close> columns and for \<^verbatim>\<open>int64\<close> columns, where the
  smallest integer is mapped to itself.
\<close>

theorem sign_correct_idempotent:
  "sign_correct (sign_correct df) = sign_correct df"
  by (simp add: sign_correct_def abs_cell_idem comp_def)

theorem sign_correct_idempotent_witness:
  "sign_correct (sign_correct
     [\<lparr>alumno = Some ''Ana'', grupo = Some ''A'', cells = [Float64 (Some (- 5)), Int64 (- 3)]\<rparr>])
   = [\<lparr>alumno = Some ''Ana'', grupo = Some ''A'', cells = [Float64 (Some 5), Int64 3]\<rparr>]"
  using sign_correct_idempotent
    [of "[\<lparr>alumno = Some ''Ana'', grupo = Some ''A'', cells = [Float64 (Some (- 5)), Int64 (- 3)]\<rparr>]"]
  by (simp add: sign_correct_def abs_int64_def)

text \<open>
  Claim C10. After sign correction every defined numeric cell is meant to be
  non-negative, and every later cleaning step to keep it so. An \<^verbatim>\<open>int64\<close> cell holding
  \<open>- 2 ^ 63\<close> is left negative by the 64-bit negation, passes the aggregation, the row
  drop and the imputation, and enters standardization as a negative number.
\<close>

theorem int64_min_stays_negative:
  "cleaner [\<lparr>alumno = Some ''Ana'', grupo = Some ''A'', cells = [Int64 (- 9223372036854775808)]\<rparr>]
   = [\<lparr>alumno = ''Ana'', grupo = ''A'', cells = [Some (- 9223372036854775808)]\<rparr>]"
  by (simp add: cleaner_def sign_correct_def abs_int64_def groupby_mean_def categories_def
      group_mean_def ncols_def group_rows_def column_values_def mean_def dropna_def complete_def
      impute_def medians_def fillna_def)

subsection \<open>Aggregation\<close>

lemma set_defined: "set (defined xs) = {x. Some x \<in> set xs}"
  by (induction xs rule: defined.induct) auto














subsection \<open>Row drop and imputation\<close>

lemma fill_complete:
  "list_all (\<lambda>c. c \<noteq> None) cs \<Longrightarrow>
   map (\<lambda>(j, c). fillna_cell c (f j)) (enumerate n cs) = cs"
  by (induction cs arbitrary: n) auto

lemma fill_same: "map (\<lambda>(c, m). fillna_cell c m) (zip cs cs) = cs"
  by (induction cs) (auto, metis fillna_cell.elims)

lemma fillna_map:
  "fillna df (map f df) =
   map (\<lambda>r. r\<lparr>cells := map (\<lambda>(c, m). fillna_cell c m) (zip (cells r) (f r))\<rparr>) df"
  by (simp add: fillna_def zip_map2 zip_same_conv_map comp_def case_prod_beta)

lemma impute_rowwise:
  "impute df =
   map (\<lambda>r. r\<lparr>cells := map (\<lambda>(c, m). fillna_cell c m) (zip (cells r)
          (map (\<lambda>(j, c). fillna_cell c (median (group_column (grupo r) j df)))
                   (enumerate 0 (cells r))))\<rparr>) df"
  unfolding impute_def medians_def by (rule fillna_map)

lemma impute_complete:
  assumes "list_all complete df"
  shows "impute df = df"
proof -
  have "\<And>r. r \<in> set df \<Longrightarrow> r\<lparr>cells := map (\<lambda>(c, m). fillna_cell c m) (zip (cells r)
          (map (\<lambda>(j, c). fillna_cell c (median (group_column (grupo r) j df)))
                   (enumerate 0 (cells r))))\<rparr> = r"
    using assms by (simp add: list_all_iff complete_def fill_complete fill_same)
  then show ?thesis unfolding impute_rowwise by (simp add: map_idI)
qed






subsection \<open>Sign of the cleaned values\<close>

text \<open>
  The smallest \<^verbatim>\<open>int64\<close> value is the only cell that the sign correction leaves
  negative. In a table without it, every value that the Cleaner hands to the Normalizer
  is defined and non-negative: the mean of non-negative values is non-negative, the row
  drop only removes rows, and the imputation changes nothing.
\<close>

lemma abs_int64_nonneg:
  assumes "w \<noteq> - 9223372036854775808"
  shows "0 \<le> sint (abs_int64 w)"
proof (cases "sint w < 0")
  case False
  then show ?thesis by (simp add: abs_int64_def)
next
  case True
  have "sint w \<noteq> - (2 ^ 63)"
  proof
    assume "sint w = - (2 ^ 63)"
    then have "sint w = sint (- 9223372036854775808 :: 64 word)" by simp
    then have "w = - 9223372036854775808" by (rule signed_word_eqI)
    with assms show False by simp
  qed
  moreover have "- (2 ^ 63) \<le> sint w" using sint_ge [of w] by simp
  ultimately have "0 < - sint w" and "- sint w < 2 ^ 63" using True by auto
  then have "sint (- w) = - sint w"
    by (simp add: sint_word_ariths signed_take_bit_int_eq_self)
  then show ?thesis using True by (simp add: abs_int64_def)
qed

lemma abs_cell_nonneg:
  assumes "c \<noteq> Int64 (- 9223372036854775808)" and "to_float (abs_cell c) = Some v"
  shows "0 \<le> v"
proof (cases c)
  case (Int64 w)
  then have "0 \<le> sint (abs_int64 w)" using assms(1) by (simp add: abs_int64_nonneg)
  then have "0 \<le> real_of_int (sint (abs_int64 w))"
    by (rule iffD2 [OF of_int_0_le_iff])
  moreover have "(signed (abs_int64 w) :: real) = real_of_int (sint (abs_int64 w))"
    by simp
  ultimately have "0 \<le> (signed (abs_int64 w) :: real)"
    by (rule ssubst [rotated])
  then show ?thesis using assms(2) Int64 by auto
next
  case (Float64 x)
  then show ?thesis using assms by auto
qed

lemma mean_nonneg:
  assumes "\<forall>v. Some v \<in> set xs \<longrightarrow> 0 \<le> v" and "mean xs = Some m"
  shows "0 \<le> m"
proof -
  have "\<forall>v \<in> set (defined xs). 0 \<le> v" using assms(1) by (simp add: set_defined)
  then have "0 \<le> sum_list (defined xs)" by (simp add: sum_list_nonneg)
  then show ?thesis using assms(2) by (auto simp: mean_def Let_def split: if_splits)
qed

lemma cleaner_nonneg:
  assumes "\<forall>r \<in> set df. Int64 (- 9223372036854775808) \<notin> set (cells r)"
    and "r \<in> set (cleaner df)" and "c \<in> set (cells r)"
  shows "\<exists>v. c = Some v \<and> 0 \<le> v"
proof -
  have cl: "cleaner df = dropna (groupby_mean (sign_correct df))"
    by (simp add: cleaner_def impute_complete dropna_def list_all_iff)
  with assms(2) have compl: "complete r" and r: "r \<in> set (groupby_mean (sign_correct df))"
    by (simp_all add: dropna_def)
  from compl assms(3) obtain v where v: "c = Some v"
    by (auto simp: complete_def list_all_iff)
  from r obtain a g where "r = group_mean (sign_correct df) a g"
    by (auto simp: groupby_mean_def)
  with assms(3) obtain j where
    c: "c = mean (column_values j (group_rows a g (sign_correct df)))"
    by (auto simp: group_mean_def)
  have "0 \<le> u" if "Some u \<in> set (column_values j (group_rows a g (sign_correct df)))" for u
  proof -
    from that obtain r0 where r0: "r0 \<in> set df" "j < length (cells r0)"
      "to_float (abs_cell (cells r0 ! j)) = Some u"
      by (auto simp: column_values_def group_rows_def sign_correct_def split: if_splits)
    then have "cells r0 ! j \<noteq> Int64 (- 9223372036854775808)"
      using assms(1) by (metis nth_mem)
    then show ?thesis using r0(3) by (rule abs_cell_nonneg)
  qed
  then have "0 \<le> v" using c v by (metis mean_nonneg)
  then show ?thesis using v by simp
qed

section \<open>Properties of the Normalizer\<close>









section \<open>Properties of the Reducer\<close>

lemma pca_result_cases:
  assumes "pca_fit_transform svd n_components X = Inr res"
    and "svd (center (map defined X)) = (U, S, Vt)"
  shows "\<exists>k. resolve_n_components n_components (length X) (matrix_ncols X) = Some k \<and>
          res = \<lparr>components = take k Vt,
                 explained_variance =
                   take k (map (\<lambda>s. float_div (Some (s\<^sup>2)) (Some (real (length X) - 1))) S),
                 explained_variance_ratio =
                   take k (map (\<lambda>e. float_div e
                       (float_sum (map (\<lambda>s. float_div (Some (s\<^sup>2)) (Some (real (length X) - 1))) S)))
                     (map (\<lambda>s. float_div (Some (s\<^sup>2)) (Some (real (length X) - 1))) S)),
                 transformed = map (\<lambda>u. map (\<lambda>(a, s). a * s) (zip (take k u) (take k S))) U\<rparr>"
  using assms
  by (auto simp: pca_fit_transform_def Let_def split: if_splits option.splits)

text \<open>
  Claim C7, as the code has it. Let the decomposition have the shapes of a singular value
  decomposition: one row of \<open>U\<close> per record, and as many singular values and right
  vectors as the smaller of the number of records and the number of features, each right
  vector of the length of the number of features. A Reducer invocation that returns has
  \<open>k\<close> components, where \<open>k\<close> is the requested number (1 or 2 in the script) and, for
  \<^verbatim>\<open>n_components=None\<close>, the smaller of the number of records and the number of
  features; \<open>k\<close> never exceeds that number (a larger request is refused). The projected
  output has one row per record and \<open>k\<close> columns, the eigenvector matrix \<open>k\<close> rows of the
  length of the number of features.
\<close>

theorem projection_dimensionality:
  assumes svd: "svd (center (map defined X)) = (U, S, Vt)"
    and U: "length U = length X" "\<forall>u \<in> set U. length u = min (length X) (matrix_ncols X)"
    and S: "length S = min (length X) (matrix_ncols X)"
    and Vt: "length Vt = min (length X) (matrix_ncols X)" "\<forall>v \<in> set Vt. length v = matrix_ncols X"
    and res: "pca_fit_transform svd n_components X = Inr res"
    and k: "k = (case n_components of None \<Rightarrow> min (length X) (matrix_ncols X) | Some k' \<Rightarrow> k')"
  shows "k \<le> min (length X) (matrix_ncols X) \<and>
         length (transformed res) = length X \<and>
         (\<forall>row \<in> set (transformed res). length row = k) \<and>
         length (components res) = k \<and>
         (\<forall>v \<in> set (components res). length v = matrix_ncols X)"
proof -
  from pca_result_cases [OF res svd] obtain k' where
    k': "resolve_n_components n_components (length X) (matrix_ncols X) = Some k'"
    and r: "components res = take k' Vt"
       "transformed res = map (\<lambda>u. map (\<lambda>(a, s). a * s) (zip (take k' u) (take k' S))) U"
    by auto
  from k' k have kk: "k' = k" and le: "k \<le> min (length X) (matrix_ncols X)"
    by (auto simp: resolve_n_components_def split: option.splits if_splits)
  have "\<forall>v \<in> set (take k Vt). length v = matrix_ncols X"
    using Vt(2) by (meson in_set_takeD)
  then show ?thesis
    using le r U S Vt(1) by (auto simp: kk)
qed

theorem projection_dimensionality_witness:
  "\<exists>res. pca_fit_transform svd_4x2 (Some 1)
       [[Some 3, Some 1], [Some 3, Some (- 1)], [Some (- 3), Some 1], [Some (- 3), Some (- 1)]]
       = Inr res \<and>
     length (transformed res) = 4 \<and> (\<forall>row \<in> set (transformed res). length row = 1) \<and>
     length (components res) = 1 \<and> (\<forall>v \<in> set (components res). length v = 2)"
proof -
  let ?X = "[[Some 3, Some 1], [Some 3, Some (- 1)], [Some (- 3), Some 1], [Some (- 3), Some (- 1)]]
            :: real option list list"
  let ?res = "\<lparr>components = [[1, 0]], explained_variance = [Some 12],
               explained_variance_ratio = [Some (9 / 10)],
               transformed = [[3], [3], [- 3], [- 3]]\<rparr>"
  have res: "pca_fit_transform svd_4x2 (Some 1) ?X = Inr ?res"
    by (simp add: pca_fit_transform_def matrix_ncols_def resolve_n_components_def float_div_def
        svd_4x2_def)
  have svd: "svd_4x2 (center (map defined ?X))
     = ([[1 / 2, 1 / 2], [1 / 2, - 1 / 2], [- 1 / 2, 1 / 2], [- 1 / 2, - 1 / 2]], [6, 2],
        [[1, 0], [0, 1]])"
    by (simp add: svd_4x2_def)
  from projection_dimensionality [OF svd _ _ _ _ _ res, of 1]
  have "length (transformed ?res) = length ?X \<and>
        (\<forall>row \<in> set (transformed ?res). length row = 1) \<and>
        length (components ?res) = 1 \<and>
        (\<forall>v \<in> set (components ?res). length v = matrix_ncols ?X)"
    by (simp add: matrix_ncols_def)
  then show ?thesis using res by (simp add: matrix_ncols_def)
qed

text \<open>
  Claim C7 as stated fails for the full-rank invocation when there are fewer records than
  features: two students with three numeric columns give two eigenvectors and two
  projected columns, not three.
\<close>

theorem full_rank_fewer_records_than_features:
  "main svd_zero_2x3
     [[\<lparr>alumno = Some ''Ana'', grupo = Some ''A'',
         cells = [Float64 (Some 5), Float64 (Some 5), Float64 (Some 5)]\<rparr>,
       \<lparr>alumno = Some ''Luis'', grupo = Some ''A'',
         cells = [Float64 (Some 5), Float64 (Some 5), Float64 (Some 5)]\<rparr>]]
   = Inr \<lparr>eigenvectors = [[1, 0, 0], [0, 1, 0]],
          eigenvalues = [Some 0, Some 0],
          variance_ratio = [None, None],
          cumulative_ratio = [None, None],
          main_components = [[0, 0], [0, 0]],
          variance_ratio_2 = [None, None],
          cumulative_ratio_2 = [None, None],
          scatter_labels = [''Ana'', ''Luis''],
          top3 = [(''Ana'', 0), (''Luis'', 0)]\<rparr>"
  by (simp add: main_def pd_concat_def cleaner_def sign_correct_def groupby_mean_def
      categories_def group_mean_def ncols_def group_rows_def column_values_def mean_def
      dropna_def complete_def impute_def medians_def fillna_def
      scaler_fit_transform_def matrix_ncols_def matrix_column_def scale_of_def nanvar_def
      handle_zeros_in_scale_def pca_fit_transform_def resolve_n_components_def float_div_def
      cumsum_def top_students_def sort_values_desc_def svd_zero_2x3_def)









section \<open>Properties of the Reporter and of the script\<close>








text \<open>
  Claim C8. With no input file the concatenation (line 21) raises, no later statement
  runs, and the script ends with that error and without a report, whatever the
  decomposition routine is.
\<close>

theorem empty_input_fails: "main svd [] = Inl ValueError_concat"
  by (simp add: main_def pd_concat_def)

theorem empty_input_fails_witness:
  "main svd_zero_2x2 [] = Inl ValueError_concat"
  using empty_input_fails [of svd_zero_2x2] by simp

end
